theory Spec2Isabelle
  imports Main "HOL-Library.Sublist"
begin

section \<open>JavaScript values and strings\<close>

text \<open>
  The policies read loosely typed fields (\<^verbatim>\<open>policyContext: any\<close>). A field is a
  JavaScript primitive: \<^verbatim>\<open>undefined\<close> stands for a missing property and for an
  optional chain \<^verbatim>\<open>a?.b\<close> cut short. Numbers are integers here, so \<^verbatim>\<open>NaN\<close> and
  fractions are left out and \<^verbatim>\<open>===\<close> on these values is equality.
  Strings are lists of 8-bit characters; a character outside ASCII is its UTF-8 bytes.
\<close>

datatype jsval = JUndefined | JNull | JBool bool | JNum int | JStr string

fun truthy :: "jsval \<Rightarrow> bool" where
  "truthy JUndefined = False"
| "truthy JNull = False"
| "truthy (JBool b) = b"
| "truthy (JNum n) = (n \<noteq> 0)"
| "truthy (JStr s) = (s \<noteq> [])"

text \<open>\<^verbatim>\<open>a || b\<close>\<close>

definition js_or :: "jsval \<Rightarrow> jsval \<Rightarrow> jsval" where
  "js_or a b = (if truthy a then a else b)"

text \<open>\<^verbatim>\<open>String.prototype.toLowerCase\<close>, on the ASCII letters.\<close>

definition lower_char :: "char \<Rightarrow> char" where
  "lower_char c =
     (case map_of (zip ''ABCDEFGHIJKLMNOPQRSTUVWXYZ'' ''abcdefghijklmnopqrstuvwxyz'') c of
        Some d \<Rightarrow> d
      | None \<Rightarrow> c)"

definition toLowerCase :: "string \<Rightarrow> string" where
  "toLowerCase s = map lower_char s"

text \<open>\<^verbatim>\<open>String.prototype.trim\<close>, on the ASCII white space (tab, LF, VT, FF, CR, space).\<close>

definition is_space :: "char \<Rightarrow> bool" where
  "is_space c = (c \<in> set [CHR 0x09, CHR 0x0A, CHR 0x0B, CHR 0x0C, CHR 0x0D, CHR 0x20])"

definition trim :: "string \<Rightarrow> string" where
  "trim s = rev (dropWhile is_space (rev (dropWhile is_space s)))"

text \<open>\<^verbatim>\<open>Array.prototype.join\<close> on an array of strings.\<close>

fun join :: "string \<Rightarrow> string list \<Rightarrow> string" where
  "join sep [] = []"
| "join sep [x] = x"
| "join sep (x # y # ys) = x @ sep @ join sep (y # ys)"

text \<open>\<^verbatim>\<open>String.prototype.includes\<close>: the argument occurs as a contiguous substring.\<close>

definition str_includes :: "string \<Rightarrow> string \<Rightarrow> bool" where
  "str_includes s sub = sublist sub s"

text \<open>The string a template literal \<^verbatim>\<open>${v}\<close> inserts for a value.\<close>

fun digits :: "nat \<Rightarrow> string" where
  "digits n =
     (if n < 10 then [''0123456789'' ! n]
      else digits (n div 10) @ [''0123456789'' ! (n mod 10)])"

fun to_string :: "jsval \<Rightarrow> string" where
  "to_string JUndefined = ''undefined''"
| "to_string JNull = ''null''"
| "to_string (JBool b) = (if b then ''true'' else ''false'')"
| "to_string (JNum n) = (if n < 0 then ''-'' @ digits (nat (- n)) else digits (nat n))"
| "to_string (JStr s) = s"

text \<open>
  The two ways the policies lower-case a role field:
  \<^verbatim>\<open>typeof x === 'string' ? x.toLowerCase() : ''\<close> never fails, while
  \<^verbatim>\<open>(x || '').toLowerCase()\<close> raises a TypeError on a truthy value that is not a string.
\<close>

datatype js_error = Error string | TypeError

fun lower_if_string :: "jsval \<Rightarrow> string" where
  "lower_if_string (JStr s) = toLowerCase s"
| "lower_if_string v = []"

definition lower_or_empty :: "jsval \<Rightarrow> js_error + string" where
  "lower_or_empty x =
     (case js_or x (JStr []) of
        JStr s \<Rightarrow> Inr (toLowerCase s)
      | v \<Rightarrow> Inl TypeError)"

section \<open>The policy context and the collaborators\<close>

text \<open>
  \<^verbatim>\<open>user.role\<close> with its two names, \<^verbatim>\<open>state.user\<close>, and the parts of the context
  the policies read: \<^verbatim>\<open>state?.auth?.strategy?.name\<close>, \<^verbatim>\<open>state?.user\<close>, \<^verbatim>\<open>params?.id\<close>,
  \<^verbatim>\<open>request?.body?.data?.workflowStatus\<close> and \<^verbatim>\<open>request?.body?.workflowStatus\<close>.
\<close>

record role =
  role_type :: jsval
  role_name :: jsval

record user =
  user_id :: jsval
  user_role :: "role option"

record policyContext =
  auth_strategy_name :: jsval
  state_user :: "user option"
  params_id :: jsval
  body_data_workflowStatus :: jsval
  body_workflowStatus :: jsval

text \<open>\<^verbatim>\<open>user?.id\<close>, \<^verbatim>\<open>user?.role\<close>, \<^verbatim>\<open>role?.type\<close>, \<^verbatim>\<open>role?.name\<close>\<close>

definition opt_id :: "user option \<Rightarrow> jsval" where
  "opt_id u = (case u of None \<Rightarrow> JUndefined | Some x \<Rightarrow> user_id x)"

definition opt_role :: "user option \<Rightarrow> role option" where
  "opt_role u = (case u of None \<Rightarrow> None | Some x \<Rightarrow> user_role x)"

definition opt_type :: "role option \<Rightarrow> jsval" where
  "opt_type r = (case r of None \<Rightarrow> JUndefined | Some x \<Rightarrow> role_type x)"

definition opt_name :: "role option \<Rightarrow> jsval" where
  "opt_name r = (case r of None \<Rightarrow> JUndefined | Some x \<Rightarrow> role_name x)"

text \<open>
  An entity as the store returns it: \<^verbatim>\<open>entity.createdBy?.id\<close> and the enumeration
  attribute \<^verbatim>\<open>workflowStatus\<close> (a string, or absent). \<^verbatim>\<open>strapi.entityService.findOne\<close>
  takes the content type and the id; it yields the entity, \<^verbatim>\<open>null\<close> (\<open>None\<close>), or rejects
  with an \<^verbatim>\<open>Error\<close> whose message is the \<open>Inl\<close> value. Logging has no effect on a
  decision and is left out.
\<close>

record entity =
  createdBy_id :: jsval
  workflowStatus :: "string option"

record strapi =
  findOne :: "string \<Rightarrow> jsval \<Rightarrow> string + entity option"

record role_check_config =
  roles :: "string list option"

record owner_config =
  contentType :: "string option"

section \<open>role-check\<close>

text \<open>
  Every policy returns a boolean or throws; a thrown \<^verbatim>\<open>new Error(message)\<close> is
  \<open>Inl (Error message)\<close>.
\<close>

text \<open>\<^verbatim>\<open>new Set(allowedRoles.map(r => r.toLowerCase().trim()))\<close>\<close>

definition normalizedAllowed :: "string list \<Rightarrow> string set" where
  "normalizedAllowed allowedRoles = set (map (\<lambda>r. trim (toLowerCase r)) allowedRoles)"

text \<open>The message of the denial for a role outside the allowed ones.\<close>

definition forbidden_message :: "string \<Rightarrow> string list \<Rightarrow> string" where
  \<open>forbidden_message userRole allowedRoles =
     ''Access denied. Your role "'' @ userRole @
     ''" does not have permission for this action. '' @
     ''Required roles: '' @ join '', '' allowedRoles\<close>

definition role_check :: "policyContext \<Rightarrow> role_check_config \<Rightarrow> strapi \<Rightarrow> js_error + bool" where
  \<open>role_check policyContext config strapi =
     (let user = state_user policyContext in
      if auth_strategy_name policyContext = JStr ''api-token'' then Inr True
      else if \<not> truthy (opt_id user) then
        Inl (Error ''You must be logged in to access this resource'')
      else
        let allowedRoles = (case roles config of None \<Rightarrow> [] | Some rs \<Rightarrow> rs) in
        if length allowedRoles = 0 then
          Inl (Error ''Access denied - policy configuration error'')
        else
          let role = opt_role user;
              roleType = lower_if_string (opt_type role);
              roleName = lower_if_string (opt_name role)
          in
          if roleType = [] \<and> roleName = [] then
            Inl (Error ''Access denied - no role assigned to your account'')
          else
            let hasRole = (roleType \<in> normalizedAllowed allowedRoles \<or>
                           roleName \<in> normalizedAllowed allowedRoles)
            in
            if \<not> hasRole then
              let userRole = (if roleType \<noteq> [] then roleType else roleName) in
              Inl (Error (forbidden_message userRole allowedRoles))
            else Inr True)\<close>

section \<open>is-owner-or-editor and is-owner\<close>

text \<open>
  The \<^verbatim>\<open>catch\<close> block of is-owner-or-editor: an error whose message holds one of five
  words is thrown again as it is, any other error is replaced.
\<close>

definition owner_or_editor_catch :: "js_error + bool \<Rightarrow> js_error + bool" where
  "owner_or_editor_catch r =
     (case r of
        Inr b \<Rightarrow> Inr b
      | Inl TypeError \<Rightarrow> Inl (Error ''An error occurred while verifying access permissions'')
      | Inl (Error message) \<Rightarrow>
          if str_includes message ''permission'' \<or>
             str_includes message ''not found'' \<or>
             str_includes message ''logged in'' \<or>
             str_includes message ''ownership'' \<or>
             str_includes message ''required''
          then Inl (Error message)
          else Inl (Error ''An error occurred while verifying access permissions''))"

definition is_owner_or_editor :: "policyContext \<Rightarrow> owner_config \<Rightarrow> strapi \<Rightarrow> js_error + bool" where
  "is_owner_or_editor policyContext config strapi =
     (let user = state_user policyContext in
      if auth_strategy_name policyContext = JStr ''api-token'' then Inr True
      else if \<not> truthy (opt_id user) then
        Inl (Error ''You must be logged in to access this resource'')
      else
        let role = opt_role user;
            roleType = lower_if_string (opt_type role);
            roleName = lower_if_string (opt_name role);
            isEditor = (roleType = ''editor'' \<or> roleName = ''editor'')
        in
        if isEditor then Inr True
        else
          let resourceId = params_id policyContext in
          if \<not> truthy resourceId then Inl (Error ''Resource ID is required'')
          else
            let contentType =
                  (case contentType config of
                     None \<Rightarrow> ''api::article.article''
                   | Some c \<Rightarrow> if c \<noteq> [] then c else ''api::article.article'')
            in
            owner_or_editor_catch
              (case findOne strapi contentType resourceId of
                 Inl message \<Rightarrow> Inl (Error message)
               | Inr None \<Rightarrow> Inl (Error ''Resource not found'')
               | Inr (Some entity) \<Rightarrow>
                   let createdById = createdBy_id entity in
                   if \<not> truthy createdById then
                     Inl (Error ''Unable to verify ownership - resource has no creator'')
                   else
                     let isOwner = (createdById = opt_id user) in
                     if \<not> isOwner then
                       Inl (Error (''You do not have permission to modify this resource. '' @
                                   ''Only the content owner or an Editor can perform this action.''))
                     else Inr True))"

text \<open>
  is-owner has the same body without the Editor test; its \<^verbatim>\<open>catch\<close> block tests the
  same five words one after the other.
\<close>

definition is_owner_catch :: "js_error + bool \<Rightarrow> js_error + bool" where
  "is_owner_catch r =
     (case r of
        Inr b \<Rightarrow> Inr b
      | Inl TypeError \<Rightarrow> Inl (Error ''An error occurred while verifying ownership'')
      | Inl (Error message) \<Rightarrow>
          if str_includes message ''permission'' then Inl (Error message)
          else if str_includes message ''not found'' then Inl (Error message)
          else if str_includes message ''logged in'' then Inl (Error message)
          else if str_includes message ''ownership'' then Inl (Error message)
          else if str_includes message ''required'' then Inl (Error message)
          else Inl (Error ''An error occurred while verifying ownership''))"

definition is_owner :: "policyContext \<Rightarrow> owner_config \<Rightarrow> strapi \<Rightarrow> js_error + bool" where
  "is_owner policyContext config strapi =
     (let user = state_user policyContext in
      if auth_strategy_name policyContext = JStr ''api-token'' then Inr True
      else if \<not> truthy (opt_id user) then
        Inl (Error ''You must be logged in to access this resource'')
      else
        let resourceId = params_id policyContext in
        if \<not> truthy resourceId then Inl (Error ''Resource ID is required'')
        else
          let contentType =
                (case contentType config of
                   None \<Rightarrow> ''api::article.article''
                 | Some c \<Rightarrow> if c \<noteq> [] then c else ''api::article.article'')
          in
          is_owner_catch
            (case findOne strapi contentType resourceId of
               Inl message \<Rightarrow> Inl (Error message)
             | Inr None \<Rightarrow> Inl (Error ''Resource not found'')
             | Inr (Some entity) \<Rightarrow>
                 let createdById = createdBy_id entity in
                 if \<not> truthy createdById then
                   Inl (Error ''Unable to verify ownership - resource has no creator'')
                 else
                   let isOwner = (createdById = opt_id user) in
                   if \<not> isOwner then
                     Inl (Error (''You do not have permission to modify this resource. '' @
                                 ''Only the owner can perform this action.''))
                   else Inr True))"



section \<open>can-publish\<close>

definition can_publish :: "policyContext \<Rightarrow> unit \<Rightarrow> strapi \<Rightarrow> js_error + bool" where
  "can_publish policyContext config strapi =
     (let user = state_user policyContext in
      if auth_strategy_name policyContext = JStr ''api-token'' then Inr True
      else if \<not> truthy (opt_id user) then
        Inl (Error ''You must be logged in to publish content'')
      else
        let role = opt_role user;
            roleType = lower_if_string (opt_type role);
            roleName = lower_if_string (opt_name role);
            canPublish = (roleType = ''editor'' \<or> roleName = ''editor'')
        in
        if \<not> canPublish then
          Inl (Error (''You do not have permission to publish content. '' @
                      ''Only Editors can publish or unpublish articles.''))
        else Inr True)"

section \<open>cms-role\<close>

text \<open>cms-role never throws: it answers \<^verbatim>\<open>true\<close> or \<^verbatim>\<open>false\<close>.\<close>

definition cms_allowed :: "string set" where
  "cms_allowed = set [''admin'', ''editor'', ''reviewer'', ''reporter'', ''author'', ''contributor'']"

definition string_or_undefined :: "jsval \<Rightarrow> jsval" where
  "string_or_undefined v = (case v of JStr s \<Rightarrow> JStr s | _ \<Rightarrow> JUndefined)"

definition cms_role :: "policyContext \<Rightarrow> unit \<Rightarrow> strapi \<Rightarrow> js_error + bool" where
  "cms_role policyContext config strapi =
     (if auth_strategy_name policyContext = JStr ''api-token'' then Inr True
      else
        case state_user policyContext of
          None \<Rightarrow> Inr False
        | Some user \<Rightarrow>
            let role = user_role user;
                type = string_or_undefined (opt_type role);
                name = string_or_undefined (opt_name role);
                normalized = toLowerCase (trim (to_string (js_or (js_or type name) (JStr []))))
            in
            if normalized = [] then Inr False
            else
              let hasAccess = (normalized \<in> cms_allowed) in Inr hasAccess)"

section \<open>workflow-status\<close>

text \<open>
  The two constant tables are objects used as dictionaries: association lists read with
  \<open>map_of\<close> (a missing key reads \<^verbatim>\<open>undefined\<close>, \<open>None\<close>; keys inherited from
  \<^verbatim>\<open>Object.prototype\<close> are not modelled).
\<close>

definition VALID_TRANSITIONS :: "(string \<times> (string \<times> string list) list) list" where
  "VALID_TRANSITIONS =
     [(''reader'', []),
      (''reporter'',
         [(''draft'', [''review'']),
          (''review'', []),
          (''published'', [])]),
      (''reviewer'',
         [(''draft'', [''review'']),
          (''review'', [''draft'']),
          (''published'', [])]),
      (''editor'',
         [(''draft'', [''review'', ''published'']),
          (''review'', [''draft'', ''published'']),
          (''published'', [''draft''])])]"

definition TRANSITION_ERROR_MESSAGES :: "(string \<times> string) list" where
  "TRANSITION_ERROR_MESSAGES =
     [(''reporter:review'',
         ''Reporters cannot modify articles that are in review. Please wait for a Reviewer or Editor to process your submission.''),
      (''reporter:published'',
         ''Reporters cannot modify published articles. Please contact an Editor if changes are needed.''),
      (''reviewer:published'',
         ''Reviewers cannot unpublish articles. Only Editors can unpublish content.''),
      (''reader:any'',
         ''Readers do not have permission to change article status.'')]"

text \<open>The arrow of the transition message, U+2192, as its UTF-8 bytes.\<close>

definition arrow :: string where
  "arrow = [CHR 0xE2, CHR 0x86, CHR 0x92]"

text \<open>The message built when a denied transition has no entry in \<open>TRANSITION_ERROR_MESSAGES\<close>.\<close>

definition transition_message :: "string \<Rightarrow> string \<Rightarrow> string \<Rightarrow> string list \<Rightarrow> string" where
  \<open>transition_message currentStatus newStatus effectiveRole allowedNextStatuses =
     ''Invalid status transition: "'' @ currentStatus @ ''" '' @ arrow @ '' "'' @ newStatus @
     ''" is not allowed for '' @ effectiveRole @ '' role. '' @
     ''Allowed transitions from "'' @ currentStatus @ ''": '' @
     (if length allowedNextStatuses > 0 then join '', '' allowedNextStatuses else ''none'')\<close>

text \<open>
  \<^verbatim>\<open>body?.data?.workflowStatus || body?.workflowStatus\<close>, the list \<^verbatim>\<open>validStatuses\<close>,
  and \<^verbatim>\<open>article?.workflowStatus || 'draft'\<close>.
\<close>

definition newStatus_of :: "policyContext \<Rightarrow> jsval" where
  "newStatus_of policyContext =
     js_or (body_data_workflowStatus policyContext) (body_workflowStatus policyContext)"

definition validStatuses :: "string list" where
  "validStatuses = [''draft'', ''review'', ''published'']"

definition currentStatus_of :: "entity \<Rightarrow> string" where
  "currentStatus_of article =
     (case workflowStatus article of
        None \<Rightarrow> ''draft''
      | Some s \<Rightarrow> if s \<noteq> [] then s else ''draft'')"

text \<open>
  The body of workflow-status in three parts: the message of a denied transition, the
  branch for a new article (no \<^verbatim>\<open>params.id\<close>), and the lookup of a transition for
  an existing article, followed by the policy itself.
\<close>

definition transition_error_message ::
    "string \<Rightarrow> string \<Rightarrow> string \<Rightarrow> string list \<Rightarrow> string" where
  "transition_error_message effectiveRole currentStatus newStatus allowedNextStatuses =
     (let errorKey = effectiveRole @ '':'' @ currentStatus;
          specificError = map_of TRANSITION_ERROR_MESSAGES errorKey
      in
      case specificError of
        Some m \<Rightarrow> m
      | None \<Rightarrow>
          if effectiveRole = [] \<or> effectiveRole = ''reader'' then
            (case map_of TRANSITION_ERROR_MESSAGES ''reader:any'' of
               Some m \<Rightarrow> m
             | None \<Rightarrow> [])
          else
            transition_message currentStatus newStatus effectiveRole allowedNextStatuses)"

definition creation_check :: "user option \<Rightarrow> jsval \<Rightarrow> js_error + bool" where
  "creation_check user newStatus =
     (case lower_or_empty (opt_type (opt_role user)) of
        Inl e \<Rightarrow> Inl e
      | Inr roleType \<Rightarrow>
          if roleType = ''reporter'' \<and> newStatus \<noteq> JStr ''draft'' then
            Inl (Error ''Reporters can only create articles in draft status. Submit for review after creation.'')
          else if roleType = ''reviewer'' then
            Inl (Error ''Reviewers cannot create articles. Only Reporters and Editors can create content.'')
          else if roleType = ''reader'' then
            Inl (Error ''Readers cannot create articles.'')
          else Inr True)"

definition transition_check :: "user option \<Rightarrow> string \<Rightarrow> jsval \<Rightarrow> js_error + bool" where
  "transition_check user currentStatus newStatus =
     (case lower_or_empty (opt_type (opt_role user)) of
        Inl e \<Rightarrow> Inl e
      | Inr roleType \<Rightarrow>
     (case lower_or_empty (opt_name (opt_role user)) of
        Inl e \<Rightarrow> Inl e
      | Inr roleName \<Rightarrow>
          let effectiveRole = (if roleType \<noteq> [] then roleType else roleName);
              transitions =
                (case map_of VALID_TRANSITIONS effectiveRole of
                   None \<Rightarrow> []
                 | Some t \<Rightarrow> t);
              allowedNextStatuses =
                (case map_of transitions currentStatus of
                   None \<Rightarrow> []
                 | Some a \<Rightarrow> a);
              isValid = (newStatus \<in> set (map JStr allowedNextStatuses))
          in
          if \<not> isValid then
            Inl (Error (transition_error_message effectiveRole currentStatus
                          (to_string newStatus) allowedNextStatuses))
          else Inr True))"

definition workflow_status :: "policyContext \<Rightarrow> unit \<Rightarrow> strapi \<Rightarrow> js_error + bool" where
  \<open>workflow_status policyContext config strapi =
     (let user = state_user policyContext in
      if auth_strategy_name policyContext = JStr ''api-token'' then Inr True
      else if \<not> truthy (opt_id user) then
        Inl (Error ''You must be logged in to change article status'')
      else
        let newStatus = newStatus_of policyContext in
        if \<not> truthy newStatus then Inr True
        else
          if newStatus \<notin> set (map JStr validStatuses) then
            Inl (Error (''Invalid status value: "'' @ to_string newStatus @
                        ''". Valid values are: '' @ join '', '' validStatuses))
          else
            let resourceId = params_id policyContext in
            if \<not> truthy resourceId then creation_check user newStatus
            else
              (case findOne strapi ''api::article.article'' resourceId of
                 Inl message \<Rightarrow> Inl (Error ''Unable to verify article status'')
               | Inr None \<Rightarrow> Inl (Error ''Article not found'')
               | Inr (Some article) \<Rightarrow>
                   let currentStatus = currentStatus_of article in
                   if JStr currentStatus = newStatus then Inr True
                   else transition_check user currentStatus newStatus))\<close>

section \<open>The transition table as the specification prints it\<close>

text \<open>
  The table of the specification, row by row (reader: nothing; reporter: draft to
  review; reviewer: draft to review, review to draft; editor: draft to review or
  published, review to draft or published, published to draft). It is compared below
  with the lookup in \<open>VALID_TRANSITIONS\<close>.
\<close>

definition spec_table :: "string \<Rightarrow> string \<Rightarrow> string list" where
  "spec_table r current =
     (if r = ''reporter'' \<and> current = ''draft'' then [''review'']
      else if r = ''reviewer'' \<and> current = ''draft'' then [''review'']
      else if r = ''reviewer'' \<and> current = ''review'' then [''draft'']
      else if r = ''editor'' \<and> current = ''draft'' then [''review'', ''published'']
      else if r = ''editor'' \<and> current = ''review'' then [''draft'', ''published'']
      else if r = ''editor'' \<and> current = ''published'' then [''draft'']
      else [])"

section \<open>Example requests\<close>

text \<open>
  A store that answers every lookup with the same entity (or \<^verbatim>\<open>null\<close>), a store whose
  lookups fail, a user with both role names, a request of the users-permissions kind, and
  an article with its creator and status.
\<close>

definition store_of :: "entity option \<Rightarrow> strapi" where
  "store_of e = \<lparr>findOne = (\<lambda>contentType resourceId. Inr e)\<rparr>"

definition failing_store :: strapi where
  "failing_store = \<lparr>findOne = (\<lambda>contentType resourceId. Inl ''connection lost'')\<rparr>"

definition mk_user :: "int \<Rightarrow> string \<Rightarrow> string \<Rightarrow> user" where
  "mk_user i t n =
     \<lparr>user_id = JNum i, user_role = Some \<lparr>role_type = JStr t, role_name = JStr n\<rparr>\<rparr>"

definition request :: "string \<Rightarrow> user option \<Rightarrow> jsval \<Rightarrow> jsval \<Rightarrow> policyContext" where
  "request strategy u resourceId status =
     \<lparr>auth_strategy_name = JStr strategy, state_user = u, params_id = resourceId,
      body_data_workflowStatus = status, body_workflowStatus = JUndefined\<rparr>"

definition mk_article :: "int \<Rightarrow> string \<Rightarrow> entity" where
  "mk_article creator status = \<lparr>createdBy_id = JNum creator, workflowStatus = Some status\<rparr>"

section \<open>Evaluation rules\<close>

lemmas fixture_defs = store_of_def failing_store_def mk_user_def request_def mk_article_def

lemmas ctx_defs = opt_id_def opt_role_def opt_type_def opt_name_def

lemma lower_simps:
  "toLowerCase ''Reporter'' = ''reporter''"
  "toLowerCase ''Reviewer'' = ''reviewer''"
  "toLowerCase ''Editor'' = ''editor''"
  "toLowerCase ''reporter'' = ''reporter''"
  "toLowerCase ''reviewer'' = ''reviewer''"
  "toLowerCase ''editor'' = ''editor''"
  by (simp_all add: toLowerCase_def lower_char_def)

lemma JStr_mem: "JStr x \<in> set (map JStr xs) \<longleftrightarrow> x \<in> set xs"
  by auto

lemma str_includes_mid: "str_includes (p @ x @ q) x"
  by (simp add: str_includes_def)



section \<open>Service credentials\<close>

text \<open>
  Claim C4. A request authenticated with the \<^verbatim>\<open>api-token\<close> strategy is allowed by every
  policy (role-check, is-owner-or-editor, is-owner, workflow-status, can-publish and
  cms-role), whatever the principal, its role, the owner of the resource, the requested
  status, the configuration and the store.
\<close>

theorem api_token_bypasses_every_policy:
  assumes "auth_strategy_name ctx = JStr ''api-token''"
  shows "role_check ctx rc s = Inr True \<and>
         is_owner_or_editor ctx oc s = Inr True \<and>
         is_owner ctx oc s = Inr True \<and>
         workflow_status ctx () s = Inr True \<and>
         can_publish ctx () s = Inr True \<and>
         cms_role ctx () s = Inr True"
  using assms
  by (simp add: role_check_def is_owner_or_editor_def is_owner_def workflow_status_def
      can_publish_def cms_role_def)

text \<open>
  A reader who owns nothing asks, with a service credential, to publish article 12 of
  another user, on a route that admits editors only.
\<close>

theorem api_token_bypasses_every_policy_witness:
  "auth_strategy_name
     (request ''api-token'' (Some (mk_user 7 ''reader'' ''Reader'')) (JStr ''12'')
        (JStr ''published'')) = JStr ''api-token'' \<and>
   role_check
     (request ''api-token'' (Some (mk_user 7 ''reader'' ''Reader'')) (JStr ''12'')
        (JStr ''published''))
     \<lparr>roles = Some [''editor'']\<rparr> (store_of (Some (mk_article 99 ''draft''))) = Inr True \<and>
   is_owner_or_editor
     (request ''api-token'' (Some (mk_user 7 ''reader'' ''Reader'')) (JStr ''12'')
        (JStr ''published''))
     \<lparr>contentType = None\<rparr> (store_of (Some (mk_article 99 ''draft''))) = Inr True \<and>
   workflow_status
     (request ''api-token'' (Some (mk_user 7 ''reader'' ''Reader'')) (JStr ''12'')
        (JStr ''published''))
     () (store_of (Some (mk_article 99 ''draft''))) = Inr True \<and>
   can_publish
     (request ''api-token'' (Some (mk_user 7 ''reader'' ''Reader'')) (JStr ''12'')
        (JStr ''published''))
     () (store_of (Some (mk_article 99 ''draft''))) = Inr True"
proof -
  let ?ctx = "request ''api-token'' (Some (mk_user 7 ''reader'' ''Reader'')) (JStr ''12'')
                (JStr ''published'')"
  have h: "auth_strategy_name ?ctx = JStr ''api-token''"
    by (simp add: request_def)
  from api_token_bypasses_every_policy [OF h] h show ?thesis
    by simp
qed

section \<open>Requests that change no status\<close>

text \<open>
  Claim C6. For an authenticated principal of any role, workflow-status allows a request
  that carries no (truthy) target status, whatever the store answers, and a request for
  an existing article whose target status is the article's current status (one of draft,
  review, published; a missing or empty status counts as draft).
\<close>

theorem workflow_status_noop_passes:
  assumes "truthy (opt_id (state_user ctx))"
    and "\<not> truthy (newStatus_of ctx) \<or>
         (\<exists>article. truthy (params_id ctx) \<and>
            findOne s ''api::article.article'' (params_id ctx) = Inr (Some article) \<and>
            currentStatus_of article \<in> set validStatuses \<and>
            newStatus_of ctx = JStr (currentStatus_of article))"
  shows "workflow_status ctx () s = Inr True"
  using assms by (auto simp: workflow_status_def Let_def)

text \<open>
  A reader edits fields of article 12 without a status while the store is down, and a
  reader sends \<^verbatim>\<open>published\<close> for an article that is published.
\<close>

theorem workflow_status_noop_passes_witness:
  "workflow_status
     (request ''users-permissions'' (Some (mk_user 3 ''reader'' ''Reader'')) (JStr ''12'')
        JUndefined)
     () failing_store = Inr True \<and>
   workflow_status
     (request ''users-permissions'' (Some (mk_user 3 ''reader'' ''Reader'')) (JStr ''12'')
        (JStr ''published''))
     () (store_of (Some (mk_article 8 ''published''))) = Inr True"
proof
  show "workflow_status
     (request ''users-permissions'' (Some (mk_user 3 ''reader'' ''Reader'')) (JStr ''12'')
        JUndefined)
     () failing_store = Inr True"
    by (rule workflow_status_noop_passes)
       (simp_all add: fixture_defs ctx_defs newStatus_of_def js_or_def)
  show "workflow_status
     (request ''users-permissions'' (Some (mk_user 3 ''reader'' ''Reader'')) (JStr ''12'')
        (JStr ''published''))
     () (store_of (Some (mk_article 8 ''published''))) = Inr True"
    by (rule workflow_status_noop_passes)
       (simp_all add: fixture_defs ctx_defs newStatus_of_def js_or_def currentStatus_of_def
          validStatuses_def)
qed

text \<open>
  Claim C10. When the status read from the body,
  \<^verbatim>\<open>body?.data?.workflowStatus || body?.workflowStatus\<close>, is falsy (the empty string,
  \<^verbatim>\<open>null\<close>, \<^verbatim>\<open>0\<close>, \<^verbatim>\<open>false\<close> or nothing), workflow-status allows the request of an
  authenticated principal without validating the value and without reading the store
  or the transition table, although neither body field is one of draft, review,
  published.
\<close>

theorem falsy_status_skips_validation:
  assumes "truthy (opt_id (state_user ctx))"
    and "\<not> truthy (newStatus_of ctx)"
  shows "workflow_status ctx () s = Inr True \<and>
         body_data_workflowStatus ctx \<notin> set (map JStr validStatuses) \<and>
         body_workflowStatus ctx \<notin> set (map JStr validStatuses)"
  using assms
  by (auto simp: workflow_status_def Let_def validStatuses_def newStatus_of_def js_or_def
           split: if_splits)

text \<open>A reader sends the empty string as the status of a published article.\<close>

theorem falsy_status_skips_validation_witness:
  "body_data_workflowStatus
     (request ''users-permissions'' (Some (mk_user 3 ''reader'' ''Reader'')) (JStr ''12'')
        (JStr [])) = JStr [] \<and>
   workflow_status
     (request ''users-permissions'' (Some (mk_user 3 ''reader'' ''Reader'')) (JStr ''12'')
        (JStr []))
     () (store_of (Some (mk_article 8 ''published''))) = Inr True \<and>
   JStr [] \<notin> set (map JStr validStatuses)"
  using falsy_status_skips_validation
          [of "request ''users-permissions'' (Some (mk_user 3 ''reader'' ''Reader''))
                 (JStr ''12'') (JStr [])"
              "store_of (Some (mk_article 8 ''published''))"]
  by (simp add: fixture_defs ctx_defs newStatus_of_def js_or_def)

section \<open>The transition table\<close>

text \<open>
  The double lookup \<^verbatim>\<open>(VALID_TRANSITIONS[role] || {})[currentStatus] || []\<close> is the
  table of the specification, for every role name and every status.
\<close>

lemma table_lookup_eq_spec_table:
  "(case map_of (case map_of VALID_TRANSITIONS r of None \<Rightarrow> [] | Some t \<Rightarrow> t) current of
      None \<Rightarrow> []
    | Some a \<Rightarrow> a) = spec_table r current"
  by (simp add: VALID_TRANSITIONS_def spec_table_def)

lemma transition_check_eq:
  assumes "lower_or_empty (opt_type (opt_role u)) = Inr roleType"
    and "lower_or_empty (opt_name (opt_role u)) = Inr roleName"
    and "r = (if roleType \<noteq> [] then roleType else roleName)"
  shows "transition_check u cur (JStr new) =
           (if new \<in> set (spec_table r cur) then Inr True
            else Inl (Error (transition_error_message r cur new (spec_table r cur))))"
  unfolding transition_check_def Let_def table_lookup_eq_spec_table JStr_mem
  using assms by simp

lemma workflow_status_existing:
  assumes "auth_strategy_name ctx \<noteq> JStr ''api-token''"
    and "truthy (opt_id (state_user ctx))"
    and "truthy (params_id ctx)"
    and "findOne s ''api::article.article'' (params_id ctx) = Inr (Some found)"
    and "newStatus_of ctx = JStr new" and "new \<in> set validStatuses"
    and "new \<noteq> currentStatus_of found"
  shows "workflow_status ctx () s =
           transition_check (state_user ctx) (currentStatus_of found) (JStr new)"
proof -
  have "truthy (JStr new)"
    using assms(6) by (auto simp: validStatuses_def)
  moreover have "JStr new \<in> set (map JStr validStatuses)"
    using assms(6) by (simp only: JStr_mem)
  moreover have "JStr (currentStatus_of found) \<noteq> JStr new"
    using assms(7) by simp
  ultimately show ?thesis
    unfolding workflow_status_def Let_def
    using assms(1-5) by simp
qed

lemma transition_error_message_cases:
  assumes "r \<in> {''reader'', ''reporter'', ''reviewer'', ''editor''}"
    and "cur \<in> set validStatuses"
  shows "transition_error_message r cur new a =
     (if r = ''reader'' then ''Readers do not have permission to change article status.''
      else if r = ''reporter'' \<and> cur = ''review'' then
        ''Reporters cannot modify articles that are in review. Please wait for a Reviewer or Editor to process your submission.''
      else if r = ''reporter'' \<and> cur = ''published'' then
        ''Reporters cannot modify published articles. Please contact an Editor if changes are needed.''
      else if r = ''reviewer'' \<and> cur = ''published'' then
        ''Reviewers cannot unpublish articles. Only Editors can unpublish content.''
      else transition_message cur new r a)"
proof -
  consider "r = ''reader''" | "r = ''reporter''" | "r = ''reviewer''" | "r = ''editor''"
    using assms(1) by blast
  moreover consider "cur = ''draft''" | "cur = ''review''" | "cur = ''published''"
    using assms(2) by (auto simp: validStatuses_def)
  ultimately show ?thesis
    by cases (simp_all add: transition_error_message_def TRANSITION_ERROR_MESSAGES_def)
qed

lemma transition_message_includes_states:
  \<open>str_includes (transition_message cur new r a)
     (''"'' @ cur @ ''" '' @ arrow @ '' "'' @ new @ ''"'')\<close>
proof -
  have \<open>transition_message cur new r a =
      ''Invalid status transition: '' @ (''"'' @ cur @ ''" '' @ arrow @ '' "'' @ new @ ''"'') @
      ('' is not allowed for '' @ r @ '' role. '' @
      ''Allowed transitions from "'' @ cur @ ''": '' @
        (if length a > 0 then join '', '' a else ''none''))\<close>
    by (simp add: transition_message_def)
  then show ?thesis
    by (simp only: str_includes_mid)
qed

lemma transition_message_includes_allowed:
  \<open>str_includes (transition_message cur new r a)
     (''Allowed transitions from "'' @ cur @ ''": '' @
        (if length a > 0 then join '', '' a else ''none''))\<close>
proof -
  have \<open>transition_message cur new r a =
      (''Invalid status transition: "'' @ cur @ ''" '' @ arrow @ '' "'' @ new @
       ''" is not allowed for '' @ r @ '' role. '') @
      (''Allowed transitions from "'' @ cur @ ''": '' @
        (if length a > 0 then join '', '' a else ''none'')) @ []\<close>
    by (simp add: transition_message_def)
  then show ?thesis
    by (simp only: str_includes_mid)
qed

text \<open>
  Claim C1, as the specification states it, fails on the message: a reporter who asks
  for \<^verbatim>\<open>published\<close> on an article in review is denied with the fixed text of
  \<open>TRANSITION_ERROR_MESSAGES\<close>, which names neither the requested status nor the allowed
  next statuses.
\<close>

theorem reporter_denial_message_counterexample:
  "workflow_status
     (request ''users-permissions'' (Some (mk_user 5 ''reporter'' ''Reporter'')) (JStr ''12'')
        (JStr ''published''))
     () (store_of (Some (mk_article 5 ''review''))) =
     Inl (Error ''Reporters cannot modify articles that are in review. Please wait for a Reviewer or Editor to process your submission.'') \<and>
   \<not> str_includes
       ''Reporters cannot modify articles that are in review. Please wait for a Reviewer or Editor to process your submission.''
       ''published''"
proof
  show "workflow_status
     (request ''users-permissions'' (Some (mk_user 5 ''reporter'' ''Reporter'')) (JStr ''12'')
        (JStr ''published''))
     () (store_of (Some (mk_article 5 ''review''))) =
     Inl (Error ''Reporters cannot modify articles that are in review. Please wait for a Reviewer or Editor to process your submission.'')"
    by (simp add: workflow_status_def transition_check_def transition_error_message_def
          fixture_defs ctx_defs newStatus_of_def js_or_def validStatuses_def
          currentStatus_of_def lower_or_empty_def lower_simps VALID_TRANSITIONS_def
          TRANSITION_ERROR_MESSAGES_def)
  show "\<not> str_includes
       ''Reporters cannot modify articles that are in review. Please wait for a Reviewer or Editor to process your submission.''
       ''published''"
    by (simp add: str_includes_def sublist_code)
qed

text \<open>
  Claim C1, amended. Let the role be the lower-cased role type, or the lower-cased role
  name when the type is empty, and let it be one of reader, reporter, reviewer, editor.
  For an existing article with current status and a different requested status, both
  among draft, review, published, workflow-status allows the request exactly when the
  requested status is in the table entry of the specification for the role and the
  current status. A denied request throws an error whose message is: for a reader, for
  a reporter on an article in review or published, and for a reviewer on a published
  article, a fixed text; in every other denied case the built message, which holds the
  current status and the requested status in quotes and the allowed next statuses
  (or \<^verbatim>\<open>none\<close>).
\<close>

theorem workflow_status_follows_table:
  assumes "auth_strategy_name ctx \<noteq> JStr ''api-token''"
    and "truthy (opt_id (state_user ctx))"
    and "lower_or_empty (opt_type (opt_role (state_user ctx))) = Inr roleType"
    and "lower_or_empty (opt_name (opt_role (state_user ctx))) = Inr roleName"
    and "r = (if roleType \<noteq> [] then roleType else roleName)"
    and "r \<in> {''reader'', ''reporter'', ''reviewer'', ''editor''}"
    and "truthy (params_id ctx)"
    and "findOne s ''api::article.article'' (params_id ctx) = Inr (Some found)"
    and "cur = currentStatus_of found" and "cur \<in> set validStatuses"
    and "newStatus_of ctx = JStr new" and "new \<in> set validStatuses" and "new \<noteq> cur"
  shows \<open>(workflow_status ctx () s = Inr True \<longleftrightarrow> new \<in> set (spec_table r cur)) \<and>
         (new \<notin> set (spec_table r cur) \<longrightarrow>
            workflow_status ctx () s =
              Inl (Error
                (if r = ''reader'' then ''Readers do not have permission to change article status.''
                 else if r = ''reporter'' \<and> cur = ''review'' then
                   ''Reporters cannot modify articles that are in review. Please wait for a Reviewer or Editor to process your submission.''
                 else if r = ''reporter'' \<and> cur = ''published'' then
                   ''Reporters cannot modify published articles. Please contact an Editor if changes are needed.''
                 else if r = ''reviewer'' \<and> cur = ''published'' then
                   ''Reviewers cannot unpublish articles. Only Editors can unpublish content.''
                 else transition_message cur new r (spec_table r cur)))) \<and>
         str_includes (transition_message cur new r (spec_table r cur))
           (''"'' @ cur @ ''" '' @ arrow @ '' "'' @ new @ ''"'') \<and>
         str_includes (transition_message cur new r (spec_table r cur))
           (''Allowed transitions from "'' @ cur @ ''": '' @
              (if length (spec_table r cur) > 0 then join '', '' (spec_table r cur)
               else ''none''))\<close>
proof -
  have ws: "workflow_status ctx () s =
           (if new \<in> set (spec_table r cur) then Inr True
            else Inl (Error (transition_error_message r cur new (spec_table r cur))))"
    using workflow_status_existing [OF assms(1,2,7,8,11,12)] assms(9,13)
      transition_check_eq [OF assms(3,4,5)]
    by simp
  have msg: "transition_error_message r cur new (spec_table r cur) =
     (if r = ''reader'' then ''Readers do not have permission to change article status.''
      else if r = ''reporter'' \<and> cur = ''review'' then
        ''Reporters cannot modify articles that are in review. Please wait for a Reviewer or Editor to process your submission.''
      else if r = ''reporter'' \<and> cur = ''published'' then
        ''Reporters cannot modify published articles. Please contact an Editor if changes are needed.''
      else if r = ''reviewer'' \<and> cur = ''published'' then
        ''Reviewers cannot unpublish articles. Only Editors can unpublish content.''
      else transition_message cur new r (spec_table r cur))"
    by (rule transition_error_message_cases [OF assms(6,10)])
  show ?thesis
  proof (intro conjI impI)
    show "workflow_status ctx () s = Inr True \<longleftrightarrow> new \<in> set (spec_table r cur)"
      by (simp add: ws)
  next
    assume "new \<notin> set (spec_table r cur)"
    then have "workflow_status ctx () s =
        Inl (Error (transition_error_message r cur new (spec_table r cur)))"
      by (simp add: ws)
    then show "workflow_status ctx () s =
              Inl (Error
                (if r = ''reader'' then ''Readers do not have permission to change article status.''
                 else if r = ''reporter'' \<and> cur = ''review'' then
                   ''Reporters cannot modify articles that are in review. Please wait for a Reviewer or Editor to process your submission.''
                 else if r = ''reporter'' \<and> cur = ''published'' then
                   ''Reporters cannot modify published articles. Please contact an Editor if changes are needed.''
                 else if r = ''reviewer'' \<and> cur = ''published'' then
                   ''Reviewers cannot unpublish articles. Only Editors can unpublish content.''
                 else transition_message cur new r (spec_table r cur)))"
      by (simp only: msg)
  next
    show \<open>str_includes (transition_message cur new r (spec_table r cur))
           (''"'' @ cur @ ''" '' @ arrow @ '' "'' @ new @ ''"'')\<close>
      by (rule transition_message_includes_states)
  next
    show \<open>str_includes (transition_message cur new r (spec_table r cur))
           (''Allowed transitions from "'' @ cur @ ''": '' @
              (if length (spec_table r cur) > 0 then join '', '' (spec_table r cur)
               else ''none''))\<close>
      by (rule transition_message_includes_allowed)
  qed
qed

text \<open>
  A reviewer rejects an article in review (allowed) and tries to publish it (denied with
  the built message, which lists \<^verbatim>\<open>draft\<close> as the only allowed next status).
\<close>

theorem workflow_status_follows_table_witness:
  "workflow_status
     (request ''users-permissions'' (Some (mk_user 5 ''Reviewer'' ''Reviewer'')) (JStr ''12'')
        (JStr ''draft''))
     () (store_of (Some (mk_article 8 ''review''))) = Inr True \<and>
   workflow_status
     (request ''users-permissions'' (Some (mk_user 5 ''Reviewer'' ''Reviewer'')) (JStr ''12'')
        (JStr ''published''))
     () (store_of (Some (mk_article 8 ''review''))) =
     Inl (Error (transition_message ''review'' ''published'' ''reviewer'' [''draft'']))"
proof -
  let ?a = "request ''users-permissions'' (Some (mk_user 5 ''Reviewer'' ''Reviewer''))
              (JStr ''12'') (JStr ''draft'')"
  let ?b = "request ''users-permissions'' (Some (mk_user 5 ''Reviewer'' ''Reviewer''))
              (JStr ''12'') (JStr ''published'')"
  let ?s = "store_of (Some (mk_article 8 ''review''))"
  have a: "auth_strategy_name ?a \<noteq> JStr ''api-token''" "truthy (opt_id (state_user ?a))"
      "lower_or_empty (opt_type (opt_role (state_user ?a))) = Inr ''reviewer''"
      "lower_or_empty (opt_name (opt_role (state_user ?a))) = Inr ''reviewer''"
      "''reviewer'' = (if ''reviewer'' \<noteq> [] then ''reviewer'' else ''reviewer'')"
      "''reviewer'' \<in> {''reader'', ''reporter'', ''reviewer'', ''editor''}"
      "truthy (params_id ?a)"
      "findOne ?s ''api::article.article'' (params_id ?a) = Inr (Some (mk_article 8 ''review''))"
      "''review'' = currentStatus_of (mk_article 8 ''review'')"
      "''review'' \<in> set validStatuses"
      "newStatus_of ?a = JStr ''draft''" "''draft'' \<in> set validStatuses"
      "''draft'' \<noteq> ''review''"
    by (simp_all add: fixture_defs ctx_defs newStatus_of_def js_or_def validStatuses_def
          lower_or_empty_def lower_simps currentStatus_of_def)
  have b: "auth_strategy_name ?b \<noteq> JStr ''api-token''" "truthy (opt_id (state_user ?b))"
      "lower_or_empty (opt_type (opt_role (state_user ?b))) = Inr ''reviewer''"
      "lower_or_empty (opt_name (opt_role (state_user ?b))) = Inr ''reviewer''"
      "''reviewer'' = (if ''reviewer'' \<noteq> [] then ''reviewer'' else ''reviewer'')"
      "''reviewer'' \<in> {''reader'', ''reporter'', ''reviewer'', ''editor''}"
      "truthy (params_id ?b)"
      "findOne ?s ''api::article.article'' (params_id ?b) = Inr (Some (mk_article 8 ''review''))"
      "''review'' = currentStatus_of (mk_article 8 ''review'')"
      "''review'' \<in> set validStatuses"
      "newStatus_of ?b = JStr ''published''" "''published'' \<in> set validStatuses"
      "''published'' \<noteq> ''review''"
    by (simp_all add: fixture_defs ctx_defs newStatus_of_def js_or_def validStatuses_def
          lower_or_empty_def lower_simps currentStatus_of_def)
  have t: "spec_table ''reviewer'' ''review'' = [''draft'']"
    by (simp add: spec_table_def)
  from workflow_status_follows_table [OF a] workflow_status_follows_table [OF b] t
  show ?thesis by simp
qed

section \<open>Creating an article\<close>

text \<open>
  Claim C5, as the specification states it, fails: a reviewer who creates an article
  (no \<^verbatim>\<open>params.id\<close>) and sends no status is allowed, since the test for a missing
  status comes before the branch for new articles.
\<close>

theorem reviewer_creates_without_status_counterexample:
  "workflow_status
     (request ''users-permissions'' (Some (mk_user 4 ''reviewer'' ''Reviewer'')) JUndefined
        JUndefined)
     () (store_of None) = Inr True"
  by (simp add: workflow_status_def fixture_defs ctx_defs newStatus_of_def js_or_def)

text \<open>
  Claim C5, amended. On a creation request (no \<^verbatim>\<open>params.id\<close>) that carries one of the
  statuses draft, review, published, workflow-status looks at the lower-cased role type
  only: a reporter is allowed exactly when the status is draft; a reviewer and a reader
  are denied; every other role type (editor, admin, also none) is allowed.
\<close>

theorem creation_initial_status_rule:
  assumes "auth_strategy_name ctx \<noteq> JStr ''api-token''"
    and "truthy (opt_id (state_user ctx))"
    and "\<not> truthy (params_id ctx)"
    and "newStatus_of ctx = JStr new"
    and "new \<in> set validStatuses"
    and "lower_or_empty (opt_type (opt_role (state_user ctx))) = Inr roleType"
  shows "(roleType = ''reporter'' \<longrightarrow>
            workflow_status ctx () s =
              (if new = ''draft'' then Inr True
               else Inl (Error ''Reporters can only create articles in draft status. Submit for review after creation.''))) \<and>
         (roleType = ''reviewer'' \<longrightarrow>
            workflow_status ctx () s =
              Inl (Error ''Reviewers cannot create articles. Only Reporters and Editors can create content.'')) \<and>
         (roleType = ''reader'' \<longrightarrow>
            workflow_status ctx () s = Inl (Error ''Readers cannot create articles.'')) \<and>
         (roleType \<notin> {''reporter'', ''reviewer'', ''reader''} \<longrightarrow>
            workflow_status ctx () s = Inr True)"
  using assms
  by (auto simp: workflow_status_def creation_check_def Let_def validStatuses_def)

text \<open>
  A reporter creates an article in review (denied) and an editor creates a published
  article (allowed).
\<close>

theorem creation_initial_status_rule_witness:
  "workflow_status
     (request ''users-permissions'' (Some (mk_user 5 ''Reporter'' ''Reporter'')) JUndefined
        (JStr ''review''))
     () (store_of None) =
     Inl (Error ''Reporters can only create articles in draft status. Submit for review after creation.'') \<and>
   workflow_status
     (request ''users-permissions'' (Some (mk_user 6 ''Editor'' ''Editor'')) JUndefined
        (JStr ''published''))
     () (store_of None) = Inr True"
proof -
  let ?r = "request ''users-permissions'' (Some (mk_user 5 ''Reporter'' ''Reporter'')) JUndefined
              (JStr ''review'')"
  let ?e = "request ''users-permissions'' (Some (mk_user 6 ''Editor'' ''Editor'')) JUndefined
              (JStr ''published'')"
  have r: "auth_strategy_name ?r \<noteq> JStr ''api-token''" "truthy (opt_id (state_user ?r))"
      "\<not> truthy (params_id ?r)" "newStatus_of ?r = JStr ''review''"
      "''review'' \<in> set validStatuses"
      "lower_or_empty (opt_type (opt_role (state_user ?r))) = Inr ''reporter''"
    by (simp_all add: fixture_defs ctx_defs newStatus_of_def js_or_def validStatuses_def
          lower_or_empty_def lower_simps)
  have e: "auth_strategy_name ?e \<noteq> JStr ''api-token''" "truthy (opt_id (state_user ?e))"
      "\<not> truthy (params_id ?e)" "newStatus_of ?e = JStr ''published''"
      "''published'' \<in> set validStatuses"
      "lower_or_empty (opt_type (opt_role (state_user ?e))) = Inr ''editor''"
    by (simp_all add: fixture_defs ctx_defs newStatus_of_def js_or_def validStatuses_def
          lower_or_empty_def lower_simps)
  from creation_initial_status_rule [OF r, of "store_of None"]
       creation_initial_status_rule [OF e, of "store_of None"]
  show ?thesis by simp
qed

section \<open>Ownership and publishing\<close>

text \<open>
  Claim C2. The claim lets an admin pass the ownership-or-editor check whoever created
  the resource. The policy tests the two role names against \<^verbatim>\<open>editor\<close> only: an admin
  who passes the role gate of the delete route (\<^verbatim>\<open>roles: ['editor', 'admin']\<close>) and
  is not the creator of article 12 is denied by is-owner-or-editor.
\<close>

theorem is_owner_or_editor_denies_admin:
  "role_check
     (request ''users-permissions'' (Some (mk_user 2 ''admin'' ''Admin'')) (JStr ''12'') JUndefined)
     \<lparr>roles = Some [''editor'', ''admin'']\<rparr> (store_of (Some (mk_article 8 ''draft''))) =
     Inr True \<and>
   is_owner_or_editor
     (request ''users-permissions'' (Some (mk_user 2 ''admin'' ''Admin'')) (JStr ''12'') JUndefined)
     \<lparr>contentType = None\<rparr> (store_of (Some (mk_article 8 ''draft''))) =
     Inl (Error ''You do not have permission to modify this resource. Only the content owner or an Editor can perform this action.'')"
  by (simp add: role_check_def is_owner_or_editor_def owner_or_editor_catch_def str_includes_def
        fixture_defs ctx_defs normalizedAllowed_def trim_def is_space_def
        toLowerCase_def lower_char_def sublist_code)

text \<open>
  Claim C3, as the specification states it, fails: can-publish denies an authenticated
  admin.
\<close>

theorem can_publish_admin_counterexample:
  "can_publish
     (request ''users-permissions'' (Some (mk_user 1 ''admin'' ''Admin'')) (JStr ''12'') JUndefined)
     () (store_of (Some (mk_article 8 ''review''))) =
     Inl (Error ''You do not have permission to publish content. Only Editors can publish or unpublish articles.'')"
  by (simp add: can_publish_def fixture_defs ctx_defs toLowerCase_def lower_char_def)

text \<open>
  Claim C3, amended. For an authenticated principal without a service credential,
  can-publish allows exactly when the lower-cased role type or the lower-cased role name
  is \<^verbatim>\<open>editor\<close>, and denies every other principal with one fixed message; the decision
  does not depend on the store, hence not on the status of any article.
\<close>

theorem can_publish_editor_only:
  assumes "auth_strategy_name ctx \<noteq> JStr ''api-token''"
    and "truthy (opt_id (state_user ctx))"
  shows "can_publish ctx () s =
           (if lower_if_string (opt_type (opt_role (state_user ctx))) = ''editor'' \<or>
               lower_if_string (opt_name (opt_role (state_user ctx))) = ''editor''
            then Inr True
            else Inl (Error ''You do not have permission to publish content. Only Editors can publish or unpublish articles.'')) \<and>
         can_publish ctx () s = can_publish ctx () s'"
  using assms by (simp add: can_publish_def Let_def)

text \<open>
  A principal whose role name is Editor may publish; a reviewer gets the same answer
  whether the article is in review or published.
\<close>

theorem can_publish_editor_only_witness:
  "can_publish
     (request ''users-permissions'' (Some (mk_user 1 ''authenticated'' ''Editor'')) (JStr ''12'')
        JUndefined)
     () (store_of (Some (mk_article 8 ''review''))) = Inr True \<and>
   can_publish
     (request ''users-permissions'' (Some (mk_user 1 ''reviewer'' ''Reviewer'')) (JStr ''12'')
        JUndefined)
     () (store_of (Some (mk_article 8 ''review''))) =
   can_publish
     (request ''users-permissions'' (Some (mk_user 1 ''reviewer'' ''Reviewer'')) (JStr ''12'')
        JUndefined)
     () (store_of (Some (mk_article 8 ''published'')))"
proof -
  let ?e = "request ''users-permissions'' (Some (mk_user 1 ''authenticated'' ''Editor''))
              (JStr ''12'') JUndefined"
  let ?r = "request ''users-permissions'' (Some (mk_user 1 ''reviewer'' ''Reviewer''))
              (JStr ''12'') JUndefined"
  have e: "auth_strategy_name ?e \<noteq> JStr ''api-token''" "truthy (opt_id (state_user ?e))"
    by (simp_all add: fixture_defs ctx_defs)
  have r: "auth_strategy_name ?r \<noteq> JStr ''api-token''" "truthy (opt_id (state_user ?r))"
    by (simp_all add: fixture_defs ctx_defs)
  have "lower_if_string (opt_name (opt_role (state_user ?e))) = ''editor''"
    by (simp add: fixture_defs ctx_defs lower_simps)
  with can_publish_editor_only [OF e] can_publish_editor_only [OF r]
  show ?thesis by simp
qed

section \<open>The role gates\<close>

lemma forbidden_message_names_roles:
  "str_includes (forbidden_message userRole allowedRoles)
     (''Required roles: '' @ join '', '' allowedRoles)"
proof -
  have "str_includes (p @ q @ r @ x) x" for p q r x :: string
    using sublist_append_leftI [of x "p @ q @ r"] by (simp add: str_includes_def)
  then show ?thesis
    unfolding forbidden_message_def by blast
qed

lemma forbidden_message_not_misconfigured:
  "forbidden_message userRole allowedRoles \<noteq> ''Access denied - policy configuration error''"
  by (simp add: forbidden_message_def)

text \<open>
  Claim C7, as the specification states it, fails: a principal with no role at all, on
  a route that requires \<^verbatim>\<open>editor\<close>, has neither role name in the allowed set, and is
  denied with a message that does not name the required roles.
\<close>

theorem role_check_no_role_counterexample:
  "role_check
     (request ''users-permissions'' (Some \<lparr>user_id = JNum 1, user_role = None\<rparr>) JUndefined
        JUndefined)
     \<lparr>roles = Some [''editor'']\<rparr> (store_of None) =
     Inl (Error ''Access denied - no role assigned to your account'') \<and>
   \<not> str_includes ''Access denied - no role assigned to your account'' ''editor'' \<and>
   lower_if_string JUndefined \<notin> normalizedAllowed [''editor'']"
  by (simp add: role_check_def fixture_defs ctx_defs str_includes_def sublist_code
        normalizedAllowed_def trim_def is_space_def toLowerCase_def lower_char_def)

text \<open>
  Claim C7, amended. Without a service credential, role-check fails with the log-in
  error when the context has no principal id; else with the configuration error when
  the list of allowed roles is missing or empty; else with the no-role error (which
  names no role) when both lower-cased role names are empty; else, with at least one
  role name, it fails exactly when neither lower-cased role name is in the lower-cased
  and trimmed allowed set, with a message that lists the required roles and differs
  from the configuration error.
\<close>

theorem role_check_denials:
  assumes "auth_strategy_name ctx \<noteq> JStr ''api-token''"
    and "allowedRoles = (case roles cfg of None \<Rightarrow> [] | Some rs \<Rightarrow> rs)"
    and "roleType = lower_if_string (opt_type (opt_role (state_user ctx)))"
    and "roleName = lower_if_string (opt_name (opt_role (state_user ctx)))"
  shows "(\<not> truthy (opt_id (state_user ctx)) \<longrightarrow>
            role_check ctx cfg s = Inl (Error ''You must be logged in to access this resource'')) \<and>
         (truthy (opt_id (state_user ctx)) \<and> allowedRoles = [] \<longrightarrow>
            role_check ctx cfg s = Inl (Error ''Access denied - policy configuration error'')) \<and>
         (truthy (opt_id (state_user ctx)) \<and> allowedRoles \<noteq> [] \<and>
          roleType = [] \<and> roleName = [] \<longrightarrow>
            role_check ctx cfg s =
              Inl (Error ''Access denied - no role assigned to your account'')) \<and>
         (truthy (opt_id (state_user ctx)) \<and> allowedRoles \<noteq> [] \<and>
          (roleType \<noteq> [] \<or> roleName \<noteq> []) \<longrightarrow>
            role_check ctx cfg s =
              (if roleType \<in> normalizedAllowed allowedRoles \<or>
                  roleName \<in> normalizedAllowed allowedRoles
               then Inr True
               else Inl (Error (forbidden_message (if roleType \<noteq> [] then roleType else roleName)
                                  allowedRoles)))) \<and>
         str_includes (forbidden_message (if roleType \<noteq> [] then roleType else roleName) allowedRoles)
           (''Required roles: '' @ join '', '' allowedRoles) \<and>
         forbidden_message (if roleType \<noteq> [] then roleType else roleName) allowedRoles \<noteq>
           ''Access denied - policy configuration error''"
proof (intro conjI impI)
  show "str_includes (forbidden_message (if roleType \<noteq> [] then roleType else roleName) allowedRoles)
           (''Required roles: '' @ join '', '' allowedRoles)"
    by (rule forbidden_message_names_roles)
  show "forbidden_message (if roleType \<noteq> [] then roleType else roleName) allowedRoles \<noteq>
           ''Access denied - policy configuration error''"
    by (rule forbidden_message_not_misconfigured)
qed (use assms in \<open>auto simp: role_check_def Let_def\<close>)

text \<open>
  No principal; an editor on a route without roles; a reporter on a route for
  \<^verbatim>\<open>'Editor '\<close> and \<^verbatim>\<open>admin\<close>.
\<close>

theorem role_check_denials_witness:
  "role_check (request ''users-permissions'' None JUndefined JUndefined)
     \<lparr>roles = Some [''editor'']\<rparr> (store_of None) =
     Inl (Error ''You must be logged in to access this resource'') \<and>
   role_check
     (request ''users-permissions'' (Some (mk_user 5 ''editor'' ''Editor'')) JUndefined JUndefined)
     \<lparr>roles = None\<rparr> (store_of None) =
     Inl (Error ''Access denied - policy configuration error'') \<and>
   role_check
     (request ''users-permissions'' (Some (mk_user 5 ''Reporter'' ''Reporter'')) JUndefined
        JUndefined)
     \<lparr>roles = Some [''Editor '', ''admin'']\<rparr> (store_of None) =
     Inl (Error (forbidden_message ''reporter'' [''Editor '', ''admin''])) \<and>
   str_includes (forbidden_message ''reporter'' [''Editor '', ''admin''])
     ''Required roles: Editor , admin''"
proof -
  let ?a = "request ''users-permissions'' None JUndefined JUndefined"
  let ?b = "request ''users-permissions'' (Some (mk_user 5 ''editor'' ''Editor'')) JUndefined
              JUndefined"
  let ?c = "request ''users-permissions'' (Some (mk_user 5 ''Reporter'' ''Reporter'')) JUndefined
              JUndefined"
  have a: "auth_strategy_name ?a \<noteq> JStr ''api-token''"
      "[''editor''] = (case roles \<lparr>roles = Some [''editor'']\<rparr> of None \<Rightarrow> [] | Some rs \<Rightarrow> rs)"
      "[] = lower_if_string (opt_type (opt_role (state_user ?a)))"
      "[] = lower_if_string (opt_name (opt_role (state_user ?a)))"
    by (simp_all add: fixture_defs ctx_defs)
  have b: "auth_strategy_name ?b \<noteq> JStr ''api-token''"
      "[] = (case roles \<lparr>roles = None\<rparr> of None \<Rightarrow> [] | Some rs \<Rightarrow> rs)"
      "''editor'' = lower_if_string (opt_type (opt_role (state_user ?b)))"
      "''editor'' = lower_if_string (opt_name (opt_role (state_user ?b)))"
    by (simp_all add: fixture_defs ctx_defs lower_simps)
  have c: "auth_strategy_name ?c \<noteq> JStr ''api-token''"
      "[''Editor '', ''admin''] =
         (case roles \<lparr>roles = Some [''Editor '', ''admin'']\<rparr> of None \<Rightarrow> [] | Some rs \<Rightarrow> rs)"
      "''reporter'' = lower_if_string (opt_type (opt_role (state_user ?c)))"
      "''reporter'' = lower_if_string (opt_name (opt_role (state_user ?c)))"
    by (simp_all add: fixture_defs ctx_defs lower_simps)
  have n: "''reporter'' \<notin> normalizedAllowed [''Editor '', ''admin'']"
    by (simp add: normalizedAllowed_def trim_def is_space_def toLowerCase_def lower_char_def)
  have ta: "truthy (opt_id (state_user ?a)) = False" "truthy (opt_id (state_user ?b))"
     "truthy (opt_id (state_user ?c))"
    by (simp_all add: fixture_defs ctx_defs)
  from role_check_denials [OF a, of "store_of None"] role_check_denials [OF b, of "store_of None"]
       role_check_denials [OF c, of "store_of None"] n ta
  show ?thesis by simp
qed

text \<open>
  Claim C8, as the specification states it, fails on the CMS-role gate: for a principal
  whose role type is \<^verbatim>\<open>authenticated\<close> and whose role name is \<^verbatim>\<open>Editor\<close>, the name
  matches an allowed role without regard to case, and cms-role answers \<^verbatim>\<open>false\<close>.
\<close>

theorem cms_role_ignores_name_counterexample:
  "cms_role
     (request ''users-permissions'' (Some (mk_user 9 ''authenticated'' ''Editor'')) JUndefined
        JUndefined)
     () (store_of None) = Inr False \<and>
   toLowerCase ''Editor'' \<in> cms_allowed"
  by (simp add: cms_role_def fixture_defs ctx_defs string_or_undefined_def js_or_def
        cms_allowed_def trim_def is_space_def toLowerCase_def lower_char_def)

text \<open>
  Claim C8, amended. In role-check a match of either lower-cased role name with the
  allowed set suffices (for an authenticated principal, a non-empty list and at least
  one non-empty role name). The CMS-role gate matches one resolved role, trimmed and
  lower-cased: the role type when it is a non-empty string, whatever the name is, and
  the role name only when the type is no string or is empty.
\<close>

theorem role_matching_fields:
  assumes "auth_strategy_name ctx \<noteq> JStr ''api-token''"
  shows "(truthy (opt_id (state_user ctx)) \<and> roles cfg = Some allowedRoles \<and>
          roleType = lower_if_string (opt_type (opt_role (state_user ctx))) \<and>
          roleName = lower_if_string (opt_name (opt_role (state_user ctx))) \<and>
          (roleType \<noteq> [] \<or> roleName \<noteq> []) \<and>
          (roleType \<in> normalizedAllowed allowedRoles \<or>
           roleName \<in> normalizedAllowed allowedRoles) \<longrightarrow>
            role_check ctx cfg s = Inr True) \<and>
         (state_user ctx = Some u \<and> opt_type (user_role u) = JStr t \<and> t \<noteq> [] \<longrightarrow>
            cms_role ctx () s = Inr (toLowerCase (trim t) \<in> cms_allowed)) \<and>
         (state_user ctx = Some u \<and> \<not> truthy (string_or_undefined (opt_type (user_role u))) \<and>
          opt_name (user_role u) = JStr n \<longrightarrow>
            cms_role ctx () s = Inr (toLowerCase (trim n) \<in> cms_allowed))"
proof (intro conjI impI)
  assume "truthy (opt_id (state_user ctx)) \<and> roles cfg = Some allowedRoles \<and>
          roleType = lower_if_string (opt_type (opt_role (state_user ctx))) \<and>
          roleName = lower_if_string (opt_name (opt_role (state_user ctx))) \<and>
          (roleType \<noteq> [] \<or> roleName \<noteq> []) \<and>
          (roleType \<in> normalizedAllowed allowedRoles \<or>
           roleName \<in> normalizedAllowed allowedRoles)"
  with assms show "role_check ctx cfg s = Inr True"
    by (auto simp: role_check_def Let_def normalizedAllowed_def)
next
  assume "state_user ctx = Some u \<and> opt_type (user_role u) = JStr t \<and> t \<noteq> []"
  with assms show "cms_role ctx () s = Inr (toLowerCase (trim t) \<in> cms_allowed)"
    by (auto simp: cms_role_def Let_def string_or_undefined_def js_or_def toLowerCase_def
          cms_allowed_def)
next
  assume "state_user ctx = Some u \<and> \<not> truthy (string_or_undefined (opt_type (user_role u))) \<and>
          opt_name (user_role u) = JStr n"
  with assms show "cms_role ctx () s = Inr (toLowerCase (trim n) \<in> cms_allowed)"
    by (auto simp: cms_role_def Let_def string_or_undefined_def js_or_def toLowerCase_def
          cms_allowed_def)
qed

text \<open>
  The principal with type \<^verbatim>\<open>authenticated\<close> and name \<^verbatim>\<open>Editor\<close> passes role-check for
  \<^verbatim>\<open>editor\<close>; the CMS-role gate decides on the type \<^verbatim>\<open>' Reviewer '\<close> alone, and on the
  name \<^verbatim>\<open>Editor\<close> when the type is missing.
\<close>

theorem role_matching_fields_witness:
  "role_check
     (request ''users-permissions'' (Some (mk_user 9 ''authenticated'' ''Editor'')) JUndefined
        JUndefined)
     \<lparr>roles = Some [''editor'']\<rparr> (store_of None) = Inr True \<and>
   cms_role
     (request ''users-permissions'' (Some (mk_user 9 '' Reviewer '' ''Guest'')) JUndefined
        JUndefined)
     () (store_of None) = Inr True \<and>
   cms_role
     (request ''users-permissions''
        (Some \<lparr>user_id = JNum 9,
               user_role = Some \<lparr>role_type = JUndefined, role_name = JStr ''Editor''\<rparr>\<rparr>)
        JUndefined JUndefined)
     () (store_of None) = Inr True"
proof -
  let ?ua = "mk_user 9 ''authenticated'' ''Editor''"
  let ?ub = "mk_user 9 '' Reviewer '' ''Guest''"
  let ?uc = "\<lparr>user_id = JNum 9,
               user_role = Some \<lparr>role_type = JUndefined, role_name = JStr ''Editor''\<rparr>\<rparr>"
  let ?a = "request ''users-permissions'' (Some ?ua) JUndefined JUndefined"
  let ?b = "request ''users-permissions'' (Some ?ub) JUndefined JUndefined"
  let ?c = "request ''users-permissions'' (Some ?uc) JUndefined JUndefined"
  have nb: "auth_strategy_name ?a \<noteq> JStr ''api-token''"
      "auth_strategy_name ?b \<noteq> JStr ''api-token''"
      "auth_strategy_name ?c \<noteq> JStr ''api-token''"
    by (simp_all add: request_def)
  have a: "truthy (opt_id (state_user ?a)) \<and>
      roles \<lparr>roles = Some [''editor'']\<rparr> = Some [''editor''] \<and>
      ''authenticated'' = lower_if_string (opt_type (opt_role (state_user ?a))) \<and>
      ''editor'' = lower_if_string (opt_name (opt_role (state_user ?a))) \<and>
      (''authenticated'' \<noteq> [] \<or> ''editor'' \<noteq> []) \<and>
      (''authenticated'' \<in> normalizedAllowed [''editor''] \<or>
       ''editor'' \<in> normalizedAllowed [''editor''])"
    by (simp add: fixture_defs ctx_defs normalizedAllowed_def trim_def is_space_def
          toLowerCase_def lower_char_def)
  have b: "state_user ?b = Some ?ub \<and> opt_type (user_role ?ub) = JStr '' Reviewer '' \<and>
      '' Reviewer '' \<noteq> []"
    by (simp add: fixture_defs ctx_defs)
  have c: "state_user ?c = Some ?uc \<and>
      \<not> truthy (string_or_undefined (opt_type (user_role ?uc))) \<and>
      opt_name (user_role ?uc) = JStr ''Editor''"
    by (simp add: fixture_defs ctx_defs string_or_undefined_def)
  have v: "toLowerCase (trim '' Reviewer '') \<in> cms_allowed"
      "toLowerCase (trim ''Editor'') \<in> cms_allowed"
    by (simp_all add: cms_allowed_def trim_def is_space_def toLowerCase_def lower_char_def)
  from role_matching_fields [OF nb(1)] a
  have 1: "role_check ?a \<lparr>roles = Some [''editor'']\<rparr> (store_of None) = Inr True"
    by blast
  from role_matching_fields
         [OF nb(2), where u = ?ub and t = "'' Reviewer ''" and s = "store_of None"] b v(1)
  have 2: "cms_role ?b () (store_of None) = Inr True"
    by simp
  from role_matching_fields
         [OF nb(3), where u = ?uc and n = "''Editor''" and s = "store_of None"] c v(2)
  have 3: "cms_role ?c () (store_of None) = Inr True"
    by simp
  from 1 2 3 show ?thesis by simp
qed

section \<open>What a denial carries\<close>































end
